theory Spec2Isabelle
  imports Main "HOL-Library.Sublist"
begin

section \<open>The identity library as seen by \<^verbatim>\<open>utils/azure_auth_helper.py\<close>\<close>

text \<open>
  The helper only constructs credential objects of \<^verbatim>\<open>azure.identity\<close>, calls
  \<^verbatim>\<open>get_token\<close> on them and prints. The library is opaque: each of its calls either
  returns or raises. A raised object is either an instance of Python's \<^verbatim>\<open>Exception\<close>
  (what \<^verbatim>\<open>except Exception\<close> catches) or derives from \<^verbatim>\<open>BaseException\<close> only
  (\<^verbatim>\<open>KeyboardInterrupt\<close>, \<^verbatim>\<open>SystemExit\<close>), which \<^verbatim>\<open>except Exception\<close> lets through.
\<close>

datatype sdk_exn =
    Exception_instance string
  | BaseException_only string

fun is_Exception :: "sdk_exn \<Rightarrow> bool" where
  "is_Exception (Exception_instance _) = True"
| "is_Exception (BaseException_only _) = False"

text \<open>What the caller of the helper can get instead of a credential.\<close>

datatype error =
    ValueError string  \<comment> \<open>raised by \<^verbatim>\<open>authenticate_azure\<close> itself (lines 40 and 58)\<close>
  | Propagated sdk_exn  \<comment> \<open>an object raised inside the library that reaches the caller\<close>

text \<open>Credential handles; the interactive ones carry the tenant they were built for.\<close>

datatype credential =
    DefaultAzureCredential
  | InteractiveBrowserCredential string
  | DeviceCodeCredential string

text \<open>The lines the helper prints (the texts themselves carry no information).\<close>

datatype message =
    Using_existing_credentials
  | No_existing_credentials
  | Starting_browser_authentication
  | Starting_device_code_authentication
  | Authenticating_with_tenant string
  | Receive_a_code
  | Authentication_successful
  | Authentication_failed sdk_exn

text \<open>
  Everything observable a call does, in order: constructor calls, token requests
  (the only calls that reach the network) and prints. A \<^verbatim>\<open>print\<close> always returns.
\<close>

datatype event =
    Construct credential
  | Get_Token credential string
  | Print message

text \<open>
  The behaviour of the library in one run: for each constructor and each token request,
  \<open>None\<close> when the call returns and \<open>Some e\<close> when it raises \<open>e\<close>. The helper makes each
  of these calls at most once per run, so one outcome per call describes every run.
\<close>

record sdk =
  new_default :: "sdk_exn option"
  token_default :: "sdk_exn option"
  new_browser :: "string \<Rightarrow> sdk_exn option"
  token_browser :: "string \<Rightarrow> sdk_exn option"
  new_device :: "string \<Rightarrow> sdk_exn option"
  token_device :: "string \<Rightarrow> sdk_exn option"

type_synonym 'a run = "event list \<times> (error + 'a)"

definition management_scope :: string where
  "management_scope = ''https://management.azure.com/.default''"

section \<open>\<^verbatim>\<open>str.lower\<close>\<close>

text \<open>
  Method names are ASCII text. \<^verbatim>\<open>str.lower\<close> maps \<^verbatim>\<open>A\<close>..\<^verbatim>\<open>Z\<close> to \<^verbatim>\<open>a\<close>..\<^verbatim>\<open>z\<close> and leaves
  every other ASCII character alone; bytes from 128 on are left alone here. (Python
  lowercases some code points beyond ASCII too, but none of them into the letters of
  \<^verbatim>\<open>browser\<close> or \<^verbatim>\<open>device\<close>, so both comparisons of the dispatch come out the same.)
\<close>

definition lower_char :: "char \<Rightarrow> char" where
  "lower_char c =
     (let n = (of_char c :: nat) in if 65 \<le> n \<and> n \<le> 90 then char_of (n + 32) else c)"

definition lower :: "string \<Rightarrow> string" where
  "lower s = map lower_char s"

section \<open>The interactive flows\<close>

text \<open>
  \<^verbatim>\<open>_authenticate_with_browser(tenant_id)\<close>, lines 63 to 76: two prints, the constructor
  (outside the \<^verbatim>\<open>try\<close>), then the token request inside \<^verbatim>\<open>try\<close> ... \<^verbatim>\<open>except Exception\<close>, whose
  handler prints and re-raises with a bare \<^verbatim>\<open>raise\<close>.
\<close>

definition authenticate_with_browser :: "sdk \<Rightarrow> string \<Rightarrow> credential run" where
  "authenticate_with_browser s tenant_id =
     (let credential = InteractiveBrowserCredential tenant_id;
          started = [Print Starting_browser_authentication,
                     Print (Authenticating_with_tenant tenant_id),
                     Construct credential]
      in case new_browser s tenant_id of
           Some e \<Rightarrow> (started, Inl (Propagated e))
         | None \<Rightarrow>
             (case token_browser s tenant_id of
                None \<Rightarrow>
                  (started @ [Get_Token credential management_scope,
                              Print Authentication_successful],
                   Inr credential)
              | Some e \<Rightarrow>
                  if is_Exception e
                  then (started @ [Get_Token credential management_scope,
                                   Print (Authentication_failed e)],
                        Inl (Propagated e))
                  else (started @ [Get_Token credential management_scope],
                        Inl (Propagated e))))"

text \<open>
  \<^verbatim>\<open>_authenticate_with_device_code(tenant_id)\<close>, lines 79 to 93: the same shape with one
  more print before the constructor.
\<close>

definition authenticate_with_device_code :: "sdk \<Rightarrow> string \<Rightarrow> credential run" where
  "authenticate_with_device_code s tenant_id =
     (let credential = DeviceCodeCredential tenant_id;
          started = [Print Starting_device_code_authentication,
                     Print (Authenticating_with_tenant tenant_id),
                     Print Receive_a_code,
                     Construct credential]
      in case new_device s tenant_id of
           Some e \<Rightarrow> (started, Inl (Propagated e))
         | None \<Rightarrow>
             (case token_device s tenant_id of
                None \<Rightarrow>
                  (started @ [Get_Token credential management_scope,
                              Print Authentication_successful],
                   Inr credential)
              | Some e \<Rightarrow>
                  if is_Exception e
                  then (started @ [Get_Token credential management_scope,
                                   Print (Authentication_failed e)],
                        Inl (Propagated e))
                  else (started @ [Get_Token credential management_scope],
                        Inl (Propagated e))))"

section \<open>\<^verbatim>\<open>authenticate_azure\<close>\<close>

text \<open>
  Lines 44 to 50, the attempt with existing credentials: the constructor and the token
  request are both inside the \<^verbatim>\<open>try\<close>. The attempt ends in one of three ways: the
  function returns the credential, the handler of \<^verbatim>\<open>except Exception\<close> prints and control
  falls through to the dispatch, or the raised object is no \<^verbatim>\<open>Exception\<close> and leaves the
  function.
\<close>

datatype attempt =
    Returned credential
  | Swallowed
  | Escaped sdk_exn

definition except_Exception :: "event list \<Rightarrow> sdk_exn \<Rightarrow> event list \<times> attempt" where
  "except_Exception sofar e =
     (if is_Exception e then (sofar @ [Print No_existing_credentials], Swallowed)
      else (sofar, Escaped e))"

definition try_existing_credentials :: "sdk \<Rightarrow> event list \<times> attempt" where
  "try_existing_credentials s =
     (case new_default s of
        Some e \<Rightarrow> except_Exception [Construct DefaultAzureCredential] e
      | None \<Rightarrow>
          (case token_default s of
             Some e \<Rightarrow>
               except_Exception
                 [Construct DefaultAzureCredential,
                  Get_Token DefaultAzureCredential management_scope] e
           | None \<Rightarrow>
               ([Construct DefaultAzureCredential,
                 Get_Token DefaultAzureCredential management_scope,
                 Print Using_existing_credentials],
                Returned DefaultAzureCredential)))"

definition tenant_id_required :: string where
  "tenant_id_required = ''tenant_id is required. Please provide your Azure tenant ID.''"

definition invalid_auth_method :: "string \<Rightarrow> string" where
  "invalid_auth_method auth_method =
     ''Invalid auth_method: '' @ auth_method @ ''. Use '' @ [CHR 0x27] @ ''browser''
       @ [CHR 0x27] @ '' or '' @ [CHR 0x27] @ ''device'' @ [CHR 0x27]"

text \<open>Lines 53 to 60, the dispatch on the method; the message quotes the method as given.\<close>

definition method_dispatch :: "sdk \<Rightarrow> string \<Rightarrow> string \<Rightarrow> credential run" where
  "method_dispatch s auth_method tenant_id =
     (if lower auth_method = ''browser'' then authenticate_with_browser s tenant_id
      else if lower auth_method = ''device'' then authenticate_with_device_code s tenant_id
      else ([], Inl (ValueError (invalid_auth_method auth_method))))"

text \<open>
  \<^verbatim>\<open>authenticate_azure(auth_method=None, tenant_id=None, force=False)\<close>, lines 15 to 60.
  Both optional arguments are \<^verbatim>\<open>str\<close> or \<^verbatim>\<open>None\<close>, as the docstring gives them.
\<close>

definition authenticate_azure ::
    "sdk \<Rightarrow> string option \<Rightarrow> string option \<Rightarrow> bool \<Rightarrow> credential run" where
  "authenticate_azure s auth_method tenant_id force =
     (let auth_method = (case auth_method of None \<Rightarrow> ''browser'' | Some m \<Rightarrow> m)
      in case tenant_id of
           None \<Rightarrow> ([], Inl (ValueError tenant_id_required))
         | Some tid \<Rightarrow>
             if \<not> force then
               (case try_existing_credentials s of
                  (sofar, Returned credential) \<Rightarrow> (sofar, Inr credential)
                | (sofar, Escaped e) \<Rightarrow> (sofar, Inl (Propagated e))
                | (sofar, Swallowed) \<Rightarrow>
                    (case method_dispatch s auth_method tid of
                       (later, r) \<Rightarrow> (sofar @ later, r)))
             else method_dispatch s auth_method tid)"

text \<open>Readings of a run that the properties below speak about.\<close>

fun interactive :: "event \<Rightarrow> bool" where
  "interactive (Construct (InteractiveBrowserCredential _)) = True"
| "interactive (Construct (DeviceCodeCredential _)) = True"
| "interactive (Get_Token (InteractiveBrowserCredential _) _) = True"
| "interactive (Get_Token (DeviceCodeCredential _) _) = True"
| "interactive (Print Starting_browser_authentication) = True"
| "interactive (Print Starting_device_code_authentication) = True"
| "interactive _ = False"

fun touches_default :: "event \<Rightarrow> bool" where
  "touches_default (Construct DefaultAzureCredential) = True"
| "touches_default (Get_Token DefaultAzureCredential _) = True"
| "touches_default (Print Using_existing_credentials) = True"
| "touches_default (Print No_existing_credentials) = True"
| "touches_default _ = False"

fun is_token_request :: "event \<Rightarrow> bool" where
  "is_token_request (Get_Token _ _) = True"
| "is_token_request _ = False"

definition existing_credentials_valid :: "sdk \<Rightarrow> bool" where
  "existing_credentials_valid s = (new_default s = None \<and> token_default s = None)"

text \<open>The attempt with existing credentials raises \<open>e\<close>: in the constructor or in the token request.\<close>

definition existing_credentials_raise :: "sdk \<Rightarrow> sdk_exn \<Rightarrow> bool" where
  "existing_credentials_raise s e =
     (new_default s = Some e \<or> (new_default s = None \<and> token_default s = Some e))"

text \<open>Lines 35 and 36 on their own: the method the dispatch sees.\<close>

definition default_method :: "string option \<Rightarrow> string" where
  "default_method auth_method = (case auth_method of None \<Rightarrow> ''browser'' | Some m \<Rightarrow> m)"

text \<open>
  Concrete libraries for concrete runs: every call succeeds; no usable existing
  credentials; the user interrupts the token request of the existing credentials; the
  interactive token requests are refused.
\<close>

definition all_succeed :: sdk where
  "all_succeed =
     \<lparr>new_default = None, token_default = None,
      new_browser = (\<lambda>_. None), token_browser = (\<lambda>_. None),
      new_device = (\<lambda>_. None), token_device = (\<lambda>_. None)\<rparr>"

definition no_existing_credentials :: sdk where
  "no_existing_credentials =
     all_succeed\<lparr>token_default := Some (Exception_instance ''CredentialUnavailableError'')\<rparr>"

definition interrupted :: sdk where
  "interrupted =
     all_succeed\<lparr>token_default := Some (BaseException_only ''KeyboardInterrupt'')\<rparr>"

definition token_requests_fail :: sdk where
  "token_requests_fail =
     all_succeed
       \<lparr>token_browser := (\<lambda>_. Some (Exception_instance ''ClientAuthenticationError'')),
        token_device := (\<lambda>_. Some (Exception_instance ''ClientAuthenticationError''))\<rparr>"

section \<open>Notebook discovery in \<^verbatim>\<open>tests/test_notebooks.py\<close>\<close>

text \<open>
  The tree at \<^verbatim>\<open>repo_root\<close>. A directory is the list of its entries by name; a directory
  the process may not list is kept apart, with the entries it holds all the same; a
  symbolic link carries the entry it resolves to.
\<close>

datatype entry =
    File
  | Dir "(string \<times> entry) list"
  | Unreadable_Dir "(string \<times> entry) list"
  | Symlink entry

type_synonym path = "string list"

text \<open>What a path stands for once its links are followed, as \<^verbatim>\<open>is_dir\<close> and \<^verbatim>\<open>is_file\<close> see it.\<close>

fun resolve :: "entry \<Rightarrow> entry" where
  "resolve (Symlink e) = resolve e"
| "resolve e = e"

fun is_file :: "entry \<Rightarrow> bool" where
  "is_file e = (resolve e = File)"

text \<open>
  \<^verbatim>\<open>repo_root.glob("**/*.ipynb")\<close> as \<^verbatim>\<open>pathlib\<close> does it. The component \<^verbatim>\<open>**\<close> stands for
  the root directory and every directory below it, where a symbolic link is not
  descended into and a directory that cannot be listed contributes nothing (the error of
  listing it is ignored). In each directory reached, \<^verbatim>\<open>*.ipynb\<close> selects the entries, of
  any kind, whose name ends in \<^verbatim>\<open>.ipynb\<close> (the match is case-sensitive, as on POSIX, and
  names starting with a dot are not special). The root itself may be a link to a
  directory. Paths are relative to the root.
\<close>

definition fnmatch_ipynb :: "string \<Rightarrow> bool" where
  "fnmatch_ipynb name = suffix ''.ipynb'' name"

fun directories :: "path \<Rightarrow> entry \<Rightarrow> (path \<times> (string \<times> entry) list) list" where
  "directories p (Dir es) = (p, es) # concat (map (\<lambda>(n, e). directories (p @ [n]) e) es)"
| "directories p File = []"
| "directories p (Unreadable_Dir es) = []"
| "directories p (Symlink e) = []"

definition select_ipynb :: "path \<times> (string \<times> entry) list \<Rightarrow> path list" where
  "select_ipynb d =
     (case d of (p, es) \<Rightarrow> map (\<lambda>(n, e). p @ [n]) (filter (\<lambda>(n, e). fnmatch_ipynb n) es))"

definition glob_ipynb :: "entry \<Rightarrow> path list" where
  "glob_ipynb root = concat (map select_ipynb (directories [] (resolve root)))"

text \<open>
  \<^verbatim>\<open>test_all_notebooks_exist(repo_root)\<close>, lines 24 to 34: the list of the glob, the
  assertion that it is not empty, then one printed line per notebook. The result is the
  printed paths and the outcome of the test.
\<close>

datatype test_result = Passed | AssertionError string

definition test_all_notebooks_exist :: "entry \<Rightarrow> path list \<times> test_result" where
  "test_all_notebooks_exist repo_root =
     (let notebooks = glob_ipynb repo_root
      in if notebooks = [] then ([], AssertionError ''No notebooks found in the repository'')
         else (notebooks, Passed))"

text \<open>
  What the specification speaks about, in its words: a file named \<^verbatim>\<open>*.ipynb\<close> somewhere
  under the root, in whatever directory, listable or not, linked or not.
\<close>

fun has_ipynb_file :: "entry \<Rightarrow> bool" where
  "has_ipynb_file File = False"
| "has_ipynb_file (Dir es) =
     (\<exists>(n, e) \<in> set es. (is_file e \<and> fnmatch_ipynb n) \<or> has_ipynb_file e)"
| "has_ipynb_file (Unreadable_Dir es) =
     (\<exists>(n, e) \<in> set es. (is_file e \<and> fnmatch_ipynb n) \<or> has_ipynb_file e)"
| "has_ipynb_file (Symlink e) = has_ipynb_file e"

text \<open>
  What the glob can see: an entry of any kind named \<^verbatim>\<open>*.ipynb\<close> in a directory that is
  reached through listable directories only, without passing a link.
\<close>

fun has_ipynb_entry :: "entry \<Rightarrow> bool" where
  "has_ipynb_entry (Dir es) = (\<exists>(n, e) \<in> set es. fnmatch_ipynb n \<or> has_ipynb_entry e)"
| "has_ipynb_entry File = False"
| "has_ipynb_entry (Unreadable_Dir es) = False"
| "has_ipynb_entry (Symlink e) = False"

text \<open>A tree of regular files and listable directories only.\<close>

fun plain :: "entry \<Rightarrow> bool" where
  "plain File = True"
| "plain (Dir es) = list_all (\<lambda>(n, e). plain e) es"
| "plain (Unreadable_Dir es) = False"
| "plain (Symlink e) = False"

text \<open>
  Concrete trees: the repository with its two notebooks; a tree whose only entry is an
  empty directory with a notebook's name; the notebooks in a directory that cannot be
  listed; the notebooks behind a link.
\<close>

definition demo_repo :: entry where
  "demo_repo =
     Dir [(''README.md'', File),
          (''notebooks'',
             Dir [(''simple_demo_notebook.ipynb'', File),
                  (''error_demo_notebook.ipynb'', File)]),
          (''tests'', Dir [(''conftest.py'', File), (''test_notebooks.py'', File)])]"

definition archive_only :: entry where
  "archive_only = Dir [(''archive.ipynb'', Dir [])]"

definition unreadable_notebooks :: entry where
  "unreadable_notebooks =
     Dir [(''notebooks'', Unreadable_Dir [(''simple_demo_notebook.ipynb'', File)])]"

definition linked_notebooks :: entry where
  "linked_notebooks =
     Dir [(''notebooks'', Symlink (Dir [(''simple_demo_notebook.ipynb'', File)]))]"

section \<open>Auxiliary facts\<close>

lemma lower_browser: "lower ''browser'' = ''browser''"
  by code_simp

lemma lower_device: "lower ''device'' = ''device''"
  by code_simp

lemma dispatch_browser:
  "lower m = ''browser'' \<Longrightarrow> method_dispatch s m t = authenticate_with_browser s t"
  by (simp add: method_dispatch_def)

lemma dispatch_device:
  "lower m = ''device'' \<Longrightarrow> method_dispatch s m t = authenticate_with_device_code s t"
  by (simp add: method_dispatch_def)

lemma browser_ignores_default:
  "authenticate_with_browser (s\<lparr>new_default := a, token_default := b\<rparr>) t
     = authenticate_with_browser s t"
  by (simp add: authenticate_with_browser_def cong: option.case_cong)

lemma device_ignores_default:
  "authenticate_with_device_code (s\<lparr>new_default := a, token_default := b\<rparr>) t
     = authenticate_with_device_code s t"
  by (simp add: authenticate_with_device_code_def cong: option.case_cong)

lemma dispatch_ignores_default:
  "method_dispatch (s\<lparr>new_default := a, token_default := b\<rparr>) m t = method_dispatch s m t"
  by (simp add: method_dispatch_def browser_ignores_default device_ignores_default)

lemma dispatch_no_default: "filter touches_default (fst (method_dispatch s m t)) = []"
  by (simp add: method_dispatch_def authenticate_with_browser_def
        authenticate_with_device_code_def Let_def split: option.splits)

lemma browser_no_ValueError: "snd (authenticate_with_browser s t) \<noteq> Inl (ValueError msg)"
  by (simp add: authenticate_with_browser_def Let_def split: option.splits)

lemma device_no_ValueError: "snd (authenticate_with_device_code s t) \<noteq> Inl (ValueError msg)"
  by (simp add: authenticate_with_device_code_def Let_def split: option.splits)

text \<open>The three ways the attempt with existing credentials can end.\<close>

lemma attempt_valid:
  "existing_credentials_valid s \<Longrightarrow>
   try_existing_credentials s =
     ([Construct DefaultAzureCredential, Get_Token DefaultAzureCredential management_scope,
       Print Using_existing_credentials],
      Returned DefaultAzureCredential)"
  by (simp add: existing_credentials_valid_def try_existing_credentials_def)

lemma attempt_swallowed:
  "existing_credentials_raise s e \<Longrightarrow> is_Exception e \<Longrightarrow>
   try_existing_credentials s =
     ((if new_default s = None
       then [Construct DefaultAzureCredential,
             Get_Token DefaultAzureCredential management_scope]
       else [Construct DefaultAzureCredential]) @ [Print No_existing_credentials],
      Swallowed)"
  by (auto simp: existing_credentials_raise_def try_existing_credentials_def
        except_Exception_def)

lemma attempt_escaped:
  "existing_credentials_raise s e \<Longrightarrow> \<not> is_Exception e \<Longrightarrow>
   try_existing_credentials s =
     ((if new_default s = None
       then [Construct DefaultAzureCredential,
             Get_Token DefaultAzureCredential management_scope]
       else [Construct DefaultAzureCredential]),
      Escaped e)"
  by (auto simp: existing_credentials_raise_def try_existing_credentials_def
        except_Exception_def)

lemma attempt_cases: "existing_credentials_valid s \<or> (\<exists>e. existing_credentials_raise s e)"
  by (cases "new_default s"; cases "token_default s")
     (auto simp: existing_credentials_valid_def existing_credentials_raise_def)

lemma attempt_no_interactive: "filter interactive (fst (try_existing_credentials s)) = []"
  by (simp add: try_existing_credentials_def except_Exception_def split: option.splits)

text \<open>The function with a tenant, read off its definition.\<close>

lemma azure_Some:
  "authenticate_azure s m (Some t) force =
     (if force then method_dispatch s (default_method m) t
      else case try_existing_credentials s of
             (sofar, Returned c) \<Rightarrow> (sofar, Inr c)
           | (sofar, Escaped e) \<Rightarrow> (sofar, Inl (Propagated e))
           | (sofar, Swallowed) \<Rightarrow>
               (sofar @ fst (method_dispatch s (default_method m) t),
                snd (method_dispatch s (default_method m) t)))"
  by (simp add: authenticate_azure_def Let_def default_method_def
        split: prod.splits attempt.splits)

lemma azure_forced:
  "authenticate_azure s m (Some t) True = method_dispatch s (default_method m) t"
  by (simp add: azure_Some)

lemma azure_swallowed:
  "snd (try_existing_credentials s) = Swallowed \<Longrightarrow>
   authenticate_azure s m (Some t) False =
     (fst (try_existing_credentials s) @ fst (method_dispatch s (default_method m) t),
      snd (method_dispatch s (default_method m) t))"
  by (cases "try_existing_credentials s") (simp add: azure_Some)

lemma azure_result_cases:
  "snd (authenticate_azure s m (Some t) force) = Inr DefaultAzureCredential
   \<or> (\<exists>e. snd (authenticate_azure s m (Some t) force) = Inl (Propagated e))
   \<or> snd (authenticate_azure s m (Some t) force)
        = snd (method_dispatch s (default_method m) t)"
  by (auto simp: azure_Some try_existing_credentials_def except_Exception_def
        split: option.splits prod.splits attempt.splits)

text \<open>The glob finds something exactly when it can see an entry with a matching name.\<close>

lemma select_nonempty:
  "select_ipynb (p, es) \<noteq> [] \<longleftrightarrow> (\<exists>(n, e) \<in> set es. fnmatch_ipynb n)"
  by (auto simp: select_ipynb_def filter_empty_conv)

lemma directories_select:
  "(\<exists>d \<in> set (directories p e). select_ipynb d \<noteq> []) \<longleftrightarrow> has_ipynb_entry e"
proof (induction e arbitrary: p)
  case (Dir es)
  have "(\<exists>d \<in> set (directories p (Dir es)). select_ipynb d \<noteq> [])
      \<longleftrightarrow> select_ipynb (p, es) \<noteq> []
          \<or> (\<exists>(n, e) \<in> set es. \<exists>d \<in> set (directories (p @ [n]) e). select_ipynb d \<noteq> [])"
    by force
  also have "\<dots> \<longleftrightarrow> (\<exists>(n, e) \<in> set es. fnmatch_ipynb n)
                   \<or> (\<exists>(n, e) \<in> set es. has_ipynb_entry e)"
    using Dir.IH by (simp only: select_nonempty) fastforce
  also have "\<dots> \<longleftrightarrow> has_ipynb_entry (Dir es)"
    by auto
  finally show ?case .
qed simp_all

lemma glob_nonempty: "glob_ipynb root \<noteq> [] \<longleftrightarrow> has_ipynb_entry (resolve root)"
  using directories_select [of "[]" "resolve root"] by (auto simp: glob_ipynb_def)

lemma test_passes: "snd (test_all_notebooks_exist root) = Passed \<longleftrightarrow> glob_ipynb root \<noteq> []"
  by (simp add: test_all_notebooks_exist_def Let_def)

text \<open>On a tree of regular files and listable directories the glob sees every notebook file.\<close>

lemma plain_resolve: "plain e \<Longrightarrow> resolve e = e"
  by (cases e) simp_all

lemma plain_file_is_entry: "plain e \<Longrightarrow> has_ipynb_file e \<Longrightarrow> has_ipynb_entry e"
proof (induction e)
  case (Dir es)
  from Dir.prems(2) obtain n x where nx: "(n, x) \<in> set es"
    and c: "(is_file x \<and> fnmatch_ipynb n) \<or> has_ipynb_file x"
    by auto
  from Dir.prems(1) nx have px: "plain x"
    by (auto simp: list_all_iff)
  from c show ?case
  proof
    assume "is_file x \<and> fnmatch_ipynb n"
    with nx show ?thesis by auto
  next
    assume "has_ipynb_file x"
    with Dir.IH nx px have "has_ipynb_entry x" by fastforce
    with nx show ?thesis by auto
  qed
qed simp_all

lemma plain_tree_discovery:
  "plain root \<Longrightarrow> has_ipynb_file root \<Longrightarrow>
   glob_ipynb root \<noteq> [] \<and> snd (test_all_notebooks_exist root) = Passed"
  by (simp add: test_passes glob_nonempty plain_resolve plain_file_is_entry)

lemma demo_repo_discovery:
  "plain demo_repo \<and> has_ipynb_file demo_repo
   \<and> test_all_notebooks_exist demo_repo =
       ([[''notebooks'', ''simple_demo_notebook.ipynb''],
         [''notebooks'', ''error_demo_notebook.ipynb'']],
        Passed)"
  by code_simp

text \<open>A notebook below a directory that cannot be listed, or behind a link, is not found.\<close>

lemma hidden_notebooks_not_found:
  "has_ipynb_file unreadable_notebooks
   \<and> test_all_notebooks_exist unreadable_notebooks =
       ([], AssertionError ''No notebooks found in the repository'')
   \<and> has_ipynb_file linked_notebooks
   \<and> test_all_notebooks_exist linked_notebooks =
       ([], AssertionError ''No notebooks found in the repository'')"
  by code_simp

section \<open>Properties of the authentication helper\<close>

text \<open>
  C1, as the code has it. The claim that every method outside \<^verbatim>\<open>browser\<close> and \<^verbatim>\<open>device\<close>
  fails does not hold: the comparison is made on the lowercase form, and the dispatch is
  only reached when the existing credentials are not used. What holds: a method whose
  lowercase form is neither \<^verbatim>\<open>browser\<close> nor \<^verbatim>\<open>device\<close>, with a tenant, fails with the
  configuration error naming the method as given, and no interactive flow is entered,
  whenever the call gets to the dispatch: \<^verbatim>\<open>force\<close> is set, or the attempt with existing
  credentials raised an \<^verbatim>\<open>Exception\<close>.
\<close>

theorem unknown_method_fails_at_dispatch:
  assumes "lower m \<noteq> ''browser''" and "lower m \<noteq> ''device''"
    and "force \<or> (existing_credentials_raise s e \<and> is_Exception e)"
  shows "snd (authenticate_azure s (Some m) (Some t) force)
           = Inl (ValueError (invalid_auth_method m))
         \<and> filter interactive (fst (authenticate_azure s (Some m) (Some t) force)) = []"
proof (cases force)
  case True
  then show ?thesis
    using assms(1,2) by (simp add: azure_forced default_method_def method_dispatch_def)
next
  case False
  with assms(3) have sw: "snd (try_existing_credentials s) = Swallowed"
    using attempt_swallowed [of s e] by simp
  show ?thesis
    using False assms(1,2)
    by (simp add: azure_swallowed [OF sw] default_method_def method_dispatch_def
          attempt_no_interactive)
qed

theorem unknown_method_fails_at_dispatch_witness:
  "authenticate_azure all_succeed (Some ''garbage'') (Some ''contoso'') True
     = ([], Inl (ValueError (invalid_auth_method ''garbage'')))
   \<and> snd (authenticate_azure no_existing_credentials (Some ''garbage'') (Some ''contoso'') False)
     = Inl (ValueError (invalid_auth_method ''garbage''))"
proof -
  have a: "lower ''garbage'' \<noteq> ''browser''" by code_simp
  have b: "lower ''garbage'' \<noteq> ''device''" by code_simp
  have c: "True \<or> (existing_credentials_raise all_succeed (Exception_instance ''none'')
                    \<and> is_Exception (Exception_instance ''none''))"
    by simp
  have d: "False \<or> (existing_credentials_raise no_existing_credentials
                       (Exception_instance ''CredentialUnavailableError'')
                     \<and> is_Exception (Exception_instance ''CredentialUnavailableError''))"
    by (simp add: existing_credentials_raise_def no_existing_credentials_def all_succeed_def)
  have "fst (authenticate_azure all_succeed (Some ''garbage'') (Some ''contoso'') True) = []"
    using a b by (simp add: azure_forced default_method_def method_dispatch_def)
  with unknown_method_fails_at_dispatch [OF a b c, of "''contoso''"]
    unknown_method_fails_at_dispatch [OF a b d, of "''contoso''"]
  show ?thesis by (simp add: prod_eq_iff)
qed

text \<open>
  C1 as stated fails twice: \<^verbatim>\<open>"BROWSER"\<close> is outside the set and opens the browser flow;
  \<^verbatim>\<open>"garbage"\<close> is outside the set and the call returns the existing credentials.
\<close>

theorem method_outside_set_counterexample:
  "''BROWSER'' \<notin> {''browser'', ''device''}
   \<and> authenticate_azure all_succeed (Some ''BROWSER'') (Some ''contoso'') True =
       ([Print Starting_browser_authentication,
         Print (Authenticating_with_tenant ''contoso''),
         Construct (InteractiveBrowserCredential ''contoso''),
         Get_Token (InteractiveBrowserCredential ''contoso'') management_scope,
         Print Authentication_successful],
        Inr (InteractiveBrowserCredential ''contoso''))
   \<and> ''garbage'' \<notin> {''browser'', ''device''}
   \<and> authenticate_azure all_succeed (Some ''garbage'') (Some ''contoso'') False =
       ([Construct DefaultAzureCredential,
         Get_Token DefaultAzureCredential management_scope,
         Print Using_existing_credentials],
        Inr DefaultAzureCredential)"
proof -
  have l: "lower ''BROWSER'' = ''browser''" by code_simp
  show ?thesis
    by (simp add: l authenticate_azure_def method_dispatch_def authenticate_with_browser_def
          try_existing_credentials_def all_succeed_def Let_def)
qed

text \<open>
  C2. With \<^verbatim>\<open>tenant_id=None\<close> the call raises the configuration error, whatever the
  method, \<^verbatim>\<open>force\<close> and the library's behaviour, and nothing has happened before: no
  credential constructed, no token requested, nothing printed.
\<close>

theorem tenant_id_None_fails_first:
  "authenticate_azure s auth_method None force = ([], Inl (ValueError tenant_id_required))"
  by (simp add: authenticate_azure_def)

text \<open>
  C3. With a tenant and \<^verbatim>\<open>force=False\<close>, when the existing credentials validate (the
  constructor and the token request both return), the call returns that credential after
  exactly these three events, whatever the method; no event of an interactive flow occurs.
\<close>

theorem valid_cached_credential_returned:
  assumes "existing_credentials_valid s"
  shows "authenticate_azure s auth_method (Some tid) False =
           ([Construct DefaultAzureCredential,
             Get_Token DefaultAzureCredential management_scope,
             Print Using_existing_credentials],
            Inr DefaultAzureCredential)
         \<and> filter interactive (fst (authenticate_azure s auth_method (Some tid) False)) = []"
  using assms by (simp add: azure_Some attempt_valid)

theorem valid_cached_credential_returned_witness:
  "existing_credentials_valid all_succeed
   \<and> authenticate_azure all_succeed (Some ''device'') (Some ''contoso'') False =
       ([Construct DefaultAzureCredential,
         Get_Token DefaultAzureCredential management_scope,
         Print Using_existing_credentials],
        Inr DefaultAzureCredential)
   \<and> filter interactive
        (fst (authenticate_azure all_succeed (Some ''device'') (Some ''contoso'') False)) = []"
proof -
  have v: "existing_credentials_valid all_succeed"
    by (simp add: existing_credentials_valid_def all_succeed_def)
  from v valid_cached_credential_returned [OF v] show ?thesis by simp
qed

text \<open>
  C4. With a tenant and \<^verbatim>\<open>force=True\<close> the call is the dispatch on the method and nothing
  else: its run is the run of the dispatch, no event touches the default credential, and
  replacing the outcomes of the default credential's constructor and token request by any
  others leaves the run unchanged.
\<close>

theorem force_bypasses_cached_credential:
  "authenticate_azure s auth_method (Some tid) True
     = method_dispatch s (default_method auth_method) tid
   \<and> filter touches_default (fst (authenticate_azure s auth_method (Some tid) True)) = []
   \<and> authenticate_azure (s\<lparr>new_default := a, token_default := b\<rparr>) auth_method (Some tid) True
     = authenticate_azure s auth_method (Some tid) True"
  by (simp add: azure_forced dispatch_no_default dispatch_ignores_default)

text \<open>
  C5. In the browser flow and in the device-code flow, once the credential is constructed
  the next event is its token request, and it is the only token request of the flow (no
  retry). When that request fails with an \<^verbatim>\<open>Exception\<close> \<open>e\<close>, the flow prints the failure
  with \<open>e\<close> and the caller gets \<open>e\<close> itself.
\<close>

theorem interactive_validation_logged_and_reraised:
  "(new_browser s t = None \<longrightarrow>
      take 4 (fst (authenticate_with_browser s t)) =
        [Print Starting_browser_authentication, Print (Authenticating_with_tenant t),
         Construct (InteractiveBrowserCredential t),
         Get_Token (InteractiveBrowserCredential t) management_scope]
      \<and> length (filter is_token_request (fst (authenticate_with_browser s t))) = 1)
   \<and> (new_browser s t = None \<and> token_browser s t = Some e \<and> is_Exception e \<longrightarrow>
      authenticate_with_browser s t =
        ([Print Starting_browser_authentication, Print (Authenticating_with_tenant t),
          Construct (InteractiveBrowserCredential t),
          Get_Token (InteractiveBrowserCredential t) management_scope,
          Print (Authentication_failed e)],
         Inl (Propagated e)))
   \<and> (new_device s t = None \<longrightarrow>
      take 5 (fst (authenticate_with_device_code s t)) =
        [Print Starting_device_code_authentication, Print (Authenticating_with_tenant t),
         Print Receive_a_code,
         Construct (DeviceCodeCredential t),
         Get_Token (DeviceCodeCredential t) management_scope]
      \<and> length (filter is_token_request (fst (authenticate_with_device_code s t))) = 1)
   \<and> (new_device s t = None \<and> token_device s t = Some e \<and> is_Exception e \<longrightarrow>
      authenticate_with_device_code s t =
        ([Print Starting_device_code_authentication, Print (Authenticating_with_tenant t),
          Print Receive_a_code,
          Construct (DeviceCodeCredential t),
          Get_Token (DeviceCodeCredential t) management_scope,
          Print (Authentication_failed e)],
         Inl (Propagated e)))"
  by (simp add: authenticate_with_browser_def authenticate_with_device_code_def Let_def
        split: option.splits)

theorem interactive_validation_logged_and_reraised_witness:
  "authenticate_with_browser token_requests_fail ''contoso'' =
     ([Print Starting_browser_authentication, Print (Authenticating_with_tenant ''contoso''),
       Construct (InteractiveBrowserCredential ''contoso''),
       Get_Token (InteractiveBrowserCredential ''contoso'') management_scope,
       Print (Authentication_failed (Exception_instance ''ClientAuthenticationError''))],
      Inl (Propagated (Exception_instance ''ClientAuthenticationError'')))
   \<and> authenticate_with_device_code token_requests_fail ''contoso'' =
     ([Print Starting_device_code_authentication,
       Print (Authenticating_with_tenant ''contoso''),
       Print Receive_a_code,
       Construct (DeviceCodeCredential ''contoso''),
       Get_Token (DeviceCodeCredential ''contoso'') management_scope,
       Print (Authentication_failed (Exception_instance ''ClientAuthenticationError''))],
      Inl (Propagated (Exception_instance ''ClientAuthenticationError'')))
   \<and> length (filter is_token_request
        (fst (authenticate_with_browser token_requests_fail ''contoso''))) = 1
   \<and> length (filter is_token_request
        (fst (authenticate_with_device_code token_requests_fail ''contoso''))) = 1"
proof -
  have h: "new_browser token_requests_fail ''contoso'' = None"
    "token_browser token_requests_fail ''contoso''
       = Some (Exception_instance ''ClientAuthenticationError'')"
    "new_device token_requests_fail ''contoso'' = None"
    "token_device token_requests_fail ''contoso''
       = Some (Exception_instance ''ClientAuthenticationError'')"
    "is_Exception (Exception_instance ''ClientAuthenticationError'')"
    by (simp_all add: token_requests_fail_def all_succeed_def)
  from interactive_validation_logged_and_reraised
         [of token_requests_fail "''contoso''" "Exception_instance ''ClientAuthenticationError''"]
  show ?thesis unfolding h by simp
qed

text \<open>
  C6. A call without a method is the call with \<^verbatim>\<open>"browser"\<close>, for every tenant, \<^verbatim>\<open>force\<close>
  and library. With a tenant, when the existing credentials are not used, it is the
  browser flow: under \<^verbatim>\<open>force=True\<close> the run is the run of the browser flow, and after an
  attempt with existing credentials that raised an \<^verbatim>\<open>Exception\<close> the run is that attempt
  followed by the browser flow.
\<close>

theorem default_method_is_browser:
  "authenticate_azure s None tenant_id force
     = authenticate_azure s (Some ''browser'') tenant_id force
   \<and> authenticate_azure s None (Some t) True = authenticate_with_browser s t
   \<and> (existing_credentials_raise s e \<and> is_Exception e \<longrightarrow>
        authenticate_azure s None (Some t) False =
          (fst (try_existing_credentials s) @ fst (authenticate_with_browser s t),
           snd (authenticate_with_browser s t)))"
proof -
  have a: "authenticate_azure s None tenant_id force
             = authenticate_azure s (Some ''browser'') tenant_id force"
    by (simp add: authenticate_azure_def)
  have b: "authenticate_azure s None (Some t) True = authenticate_with_browser s t"
    by (simp add: azure_forced default_method_def dispatch_browser lower_browser)
  have c: "authenticate_azure s None (Some t) False =
             (fst (try_existing_credentials s) @ fst (authenticate_with_browser s t),
              snd (authenticate_with_browser s t))"
    if "existing_credentials_raise s e" and "is_Exception e"
  proof -
    from that have "snd (try_existing_credentials s) = Swallowed"
      by (simp add: attempt_swallowed)
    from azure_swallowed [OF this, of None t] show ?thesis
      by (simp add: dispatch_browser lower_browser default_method_def)
  qed
  from a b c show ?thesis by blast
qed

theorem default_method_is_browser_witness:
  "authenticate_azure no_existing_credentials None (Some ''contoso'') False =
     ([Construct DefaultAzureCredential,
       Get_Token DefaultAzureCredential management_scope,
       Print No_existing_credentials,
       Print Starting_browser_authentication,
       Print (Authenticating_with_tenant ''contoso''),
       Construct (InteractiveBrowserCredential ''contoso''),
       Get_Token (InteractiveBrowserCredential ''contoso'') management_scope,
       Print Authentication_successful],
      Inr (InteractiveBrowserCredential ''contoso''))"
proof -
  have r: "existing_credentials_raise no_existing_credentials
             (Exception_instance ''CredentialUnavailableError'')
           \<and> is_Exception (Exception_instance ''CredentialUnavailableError'')"
    by (simp add: existing_credentials_raise_def no_existing_credentials_def all_succeed_def)
  have "authenticate_azure no_existing_credentials None (Some ''contoso'') False =
          (fst (try_existing_credentials no_existing_credentials)
             @ fst (authenticate_with_browser no_existing_credentials ''contoso''),
           snd (authenticate_with_browser no_existing_credentials ''contoso''))"
    using default_method_is_browser
            [of no_existing_credentials None False "''contoso''"
                "Exception_instance ''CredentialUnavailableError''"] r
    by blast
  then show ?thesis
    by (simp add: try_existing_credentials_def except_Exception_def
          authenticate_with_browser_def no_existing_credentials_def all_succeed_def Let_def)
qed

text \<open>
  C8. The method is matched on its lowercase form. A method whose lowercase form is
  \<^verbatim>\<open>browser\<close> selects the browser flow at the dispatch, the whole call behaves as the call
  with \<^verbatim>\<open>"browser"\<close> itself (for every tenant, \<^verbatim>\<open>force\<close> and library), under \<^verbatim>\<open>force=True\<close>
  with a tenant the run is the run of the browser flow, and with a tenant the call never
  ends in a configuration error. The same holds for \<^verbatim>\<open>device\<close> and the device-code flow.
\<close>

theorem method_matching_ignores_case:
  "(lower m = ''browser'' \<longrightarrow>
       method_dispatch s m t = authenticate_with_browser s t
     \<and> authenticate_azure s (Some m) tenant_id force
         = authenticate_azure s (Some ''browser'') tenant_id force
     \<and> authenticate_azure s (Some m) (Some t) True = authenticate_with_browser s t
     \<and> snd (authenticate_azure s (Some m) (Some t) force) \<noteq> Inl (ValueError msg))
   \<and> (lower m = ''device'' \<longrightarrow>
       method_dispatch s m t = authenticate_with_device_code s t
     \<and> authenticate_azure s (Some m) tenant_id force
         = authenticate_azure s (Some ''device'') tenant_id force
     \<and> authenticate_azure s (Some m) (Some t) True = authenticate_with_device_code s t
     \<and> snd (authenticate_azure s (Some m) (Some t) force) \<noteq> Inl (ValueError msg))"
proof (intro conjI impI)
  assume l: "lower m = ''browser''"
  show "method_dispatch s m t = authenticate_with_browser s t"
    by (rule dispatch_browser [OF l])
  show "authenticate_azure s (Some m) tenant_id force
          = authenticate_azure s (Some ''browser'') tenant_id force"
    by (cases tenant_id)
       (simp_all add: authenticate_azure_def dispatch_browser l lower_browser Let_def)
  show "authenticate_azure s (Some m) (Some t) True = authenticate_with_browser s t"
    by (simp add: azure_forced default_method_def dispatch_browser l)
  show "snd (authenticate_azure s (Some m) (Some t) force) \<noteq> Inl (ValueError msg)"
    using azure_result_cases [of s "Some m" t force] browser_no_ValueError [of s t msg]
    by (auto simp: dispatch_browser l default_method_def)
next
  assume l: "lower m = ''device''"
  show "method_dispatch s m t = authenticate_with_device_code s t"
    by (rule dispatch_device [OF l])
  show "authenticate_azure s (Some m) tenant_id force
          = authenticate_azure s (Some ''device'') tenant_id force"
    by (cases tenant_id)
       (simp_all add: authenticate_azure_def dispatch_device l lower_device Let_def)
  show "authenticate_azure s (Some m) (Some t) True = authenticate_with_device_code s t"
    by (simp add: azure_forced default_method_def dispatch_device l)
  show "snd (authenticate_azure s (Some m) (Some t) force) \<noteq> Inl (ValueError msg)"
    using azure_result_cases [of s "Some m" t force] device_no_ValueError [of s t msg]
    by (auto simp: dispatch_device l default_method_def)
qed

theorem method_matching_ignores_case_witness:
  "lower ''BROWSER'' = ''browser'' \<and> lower ''Device'' = ''device''
   \<and> authenticate_azure all_succeed (Some ''BROWSER'') (Some ''contoso'') True
       = authenticate_with_browser all_succeed ''contoso''
   \<and> authenticate_azure all_succeed (Some ''Device'') (Some ''contoso'') True
       = authenticate_with_device_code all_succeed ''contoso''
   \<and> snd (authenticate_azure no_existing_credentials (Some ''Device'') (Some ''contoso'') False)
       \<noteq> Inl (ValueError (invalid_auth_method ''Device''))"
proof -
  have b: "lower ''BROWSER'' = ''browser''" by code_simp
  have d: "lower ''Device'' = ''device''" by code_simp
  have 1: "authenticate_azure all_succeed (Some ''BROWSER'') (Some ''contoso'') True
             = authenticate_with_browser all_succeed ''contoso''"
    using b method_matching_ignores_case
            [of "''BROWSER''" all_succeed "''contoso''" "Some ''contoso''" True "[]"]
    by blast
  have 2: "authenticate_azure all_succeed (Some ''Device'') (Some ''contoso'') True
             = authenticate_with_device_code all_succeed ''contoso''"
    using d method_matching_ignores_case
            [of "''Device''" all_succeed "''contoso''" "Some ''contoso''" True "[]"]
    by blast
  have 3: "snd (authenticate_azure no_existing_credentials (Some ''Device'')
                  (Some ''contoso'') False)
             \<noteq> Inl (ValueError (invalid_auth_method ''Device''))"
    using d method_matching_ignores_case
            [of "''Device''" no_existing_credentials "''contoso''" "Some ''contoso''" False
                "invalid_auth_method ''Device''"]
    by blast
  from b d 1 2 3 show ?thesis by blast
qed

text \<open>
  C9. With a tenant and \<^verbatim>\<open>force=False\<close>, when the existing credentials validate, the run
  is the same for any two methods, and its result is the default credential: a method
  such as \<^verbatim>\<open>"garbage"\<close> raises no configuration error then.
\<close>

theorem valid_cached_credential_ignores_method:
  assumes "existing_credentials_valid s"
  shows "authenticate_azure s auth_method (Some t) False
           = authenticate_azure s auth_method' (Some t) False
         \<and> snd (authenticate_azure s auth_method (Some t) False) = Inr DefaultAzureCredential"
  using assms by (simp add: azure_Some attempt_valid)

theorem valid_cached_credential_ignores_method_witness:
  "authenticate_azure all_succeed (Some ''garbage'') (Some ''contoso'') False
     = authenticate_azure all_succeed None (Some ''contoso'') False
   \<and> snd (authenticate_azure all_succeed (Some ''garbage'') (Some ''contoso'') False)
     = Inr DefaultAzureCredential
   \<and> snd (authenticate_azure all_succeed (Some ''garbage'') (Some ''contoso'') True)
     = Inl (ValueError (invalid_auth_method ''garbage''))"
proof -
  have v: "existing_credentials_valid all_succeed"
    by (simp add: existing_credentials_valid_def all_succeed_def)
  have a: "lower ''garbage'' \<noteq> ''browser''" by code_simp
  have b: "lower ''garbage'' \<noteq> ''device''" by code_simp
  have c: "snd (authenticate_azure all_succeed (Some ''garbage'') (Some ''contoso'') True)
             = Inl (ValueError (invalid_auth_method ''garbage''))"
    using a b by (simp add: azure_forced default_method_def method_dispatch_def)
  from c valid_cached_credential_ignores_method
           [OF v, of "Some ''garbage''" "''contoso''" None]
  show ?thesis by blast
qed

text \<open>
  C10, as the code has it. \<^verbatim>\<open>except Exception\<close> catches the instances of \<^verbatim>\<open>Exception\<close>
  only. With a tenant and \<^verbatim>\<open>force=False\<close>, when the constructor or the token request of
  the default credential raises an instance \<open>e\<close> of \<^verbatim>\<open>Exception\<close>, the attempt ends
  swallowed, and the run is the attempt followed by the dispatch on the method, with the
  result of the dispatch.
\<close>

theorem caught_Exception_falls_through_to_dispatch:
  assumes "existing_credentials_raise s e" and "is_Exception e"
  shows "snd (try_existing_credentials s) = Swallowed
         \<and> authenticate_azure s auth_method (Some t) False =
             (fst (try_existing_credentials s)
                @ fst (method_dispatch s (default_method auth_method) t),
              snd (method_dispatch s (default_method auth_method) t))"
  using assms azure_swallowed [of s auth_method t] attempt_swallowed [of s e] by simp

theorem caught_Exception_falls_through_to_dispatch_witness:
  "authenticate_azure no_existing_credentials (Some ''device'') (Some ''contoso'') False =
     ([Construct DefaultAzureCredential,
       Get_Token DefaultAzureCredential management_scope,
       Print No_existing_credentials,
       Print Starting_device_code_authentication,
       Print (Authenticating_with_tenant ''contoso''),
       Print Receive_a_code,
       Construct (DeviceCodeCredential ''contoso''),
       Get_Token (DeviceCodeCredential ''contoso'') management_scope,
       Print Authentication_successful],
      Inr (DeviceCodeCredential ''contoso''))"
proof -
  have r: "existing_credentials_raise no_existing_credentials
             (Exception_instance ''CredentialUnavailableError'')"
    by (simp add: existing_credentials_raise_def no_existing_credentials_def all_succeed_def)
  have i: "is_Exception (Exception_instance ''CredentialUnavailableError'')"
    by simp
  have "authenticate_azure no_existing_credentials (Some ''device'') (Some ''contoso'') False =
          (fst (try_existing_credentials no_existing_credentials)
             @ fst (method_dispatch no_existing_credentials
                      (default_method (Some ''device'')) ''contoso''),
           snd (method_dispatch no_existing_credentials
                  (default_method (Some ''device'')) ''contoso''))"
    using caught_Exception_falls_through_to_dispatch [OF r i] by simp
  then show ?thesis
    by (simp add: try_existing_credentials_def except_Exception_def default_method_def
          dispatch_device lower_device authenticate_with_device_code_def
          no_existing_credentials_def all_succeed_def Let_def)
qed

text \<open>
  C10 as stated fails: a \<^verbatim>\<open>KeyboardInterrupt\<close> raised by the token request of the default
  credential is not caught; the caller gets it and the dispatch is never reached.
\<close>

theorem interrupt_not_swallowed_counterexample:
  "authenticate_azure interrupted (Some ''browser'') (Some ''contoso'') False =
     ([Construct DefaultAzureCredential,
       Get_Token DefaultAzureCredential management_scope],
      Inl (Propagated (BaseException_only ''KeyboardInterrupt'')))"
  by (simp add: authenticate_azure_def try_existing_credentials_def except_Exception_def
        interrupted_def all_succeed_def)

section \<open>Properties of notebook discovery\<close>

text \<open>
  C7. The assertion of the test is to pass exactly when a notebook file exists under
  the root; line 26 of the test says it gets all \<^verbatim>\<open>.ipynb\<close> files and line 29 that it
  checks for at least one notebook. The glob takes entries of any kind, and nothing
  filters its result with \<^verbatim>\<open>is_file\<close>: on a tree whose only entry is an empty directory
  named \<^verbatim>\<open>archive.ipynb\<close> there is no notebook file, yet the glob returns that directory,
  the assertion passes and the directory is printed as a found notebook.
\<close>

theorem directory_named_ipynb_passes:
  "\<not> has_ipynb_file archive_only
   \<and> test_all_notebooks_exist archive_only = ([[''archive.ipynb'']], Passed)"
  by code_simp

end
